theory Spec2Isabelle
  imports Complex_Main "HOL-Library.AList"
begin

section \<open>Data model\<close>

text \<open>
  The two namedtuples of \<^verbatim>\<open>main.py\<close>. Timestamps are Python floats (epoch seconds);
  they are modelled as reals, so the rounding of floating-point arithmetic is not part
  of the model.
\<close>

record DnsResponse =
  ipv4 :: string
  expiry :: real
  response_time :: real

record HostConfiguration =
  name :: string
  webhook_uri :: string

text \<open>
  A Python \<^verbatim>\<open>dict\<close> keeps its keys in insertion order and holds each key once: it is an
  association list whose keys are distinct. \<^verbatim>\<open>d.get(k)\<close> is the lookup,
  \<^verbatim>\<open>d[k] = v\<close> replaces the value of a key in place or appends a new key.
\<close>

type_synonym ('k, 'v) dict = "('k \<times> 'v) list"

definition dict_get :: "('k, 'v) dict \<Rightarrow> 'k \<Rightarrow> 'v option" where
  "dict_get d k = map_of d k"

definition dict_setitem :: "('k, 'v) dict \<Rightarrow> 'k \<Rightarrow> 'v \<Rightarrow> ('k, 'v) dict" where
  "dict_setitem d k v = AList.update k v d"

definition dict_keys :: "('k, 'v) dict \<Rightarrow> 'k list" where
  "dict_keys d = map fst d"

definition dict_values :: "('k, 'v) dict \<Rightarrow> 'v list" where
  "dict_values d = map snd d"

type_synonym responses = "(string, DnsResponse) dict"
type_synonym config = "(string, HostConfiguration) dict"

text \<open>The exceptions the program can raise, as values.\<close>

datatype error =
    FileNotFoundError
  | AttributeError
  | KeyError
  | TypeError
  | ValueError
  | IndexError
  | DNSException
  | RequestException
  | IllTyped

text \<open>
  \<open>IllTyped\<close> is not a Python exception. The namedtuples are typed records here (a string
  and two numbers, a pair of strings); a YAML document that carries a value of another
  type under one of their keys lies outside the model, and \<open>IllTyped\<close> marks it.
\<close>

text \<open>
  What \<^verbatim>\<open>yaml.load\<close> returns and \<^verbatim>\<open>yaml.dump\<close> accepts: nothing (an empty document), a
  string, a number, or a mapping with string keys. A file is modelled by the document it
  holds, so dumping a value and loading the file again gives the value back; the order
  in which the dumper writes the keys of a mapping is not modelled.
\<close>

datatype yaml = YNull | YStr string | YNum real | YMap "(string \<times> yaml) list"

section \<open>The outside world\<close>

datatype level = DEBUG | INFO | ERROR

datatype log_record =
    LoadedConfiguration config
  | CacheFileNotFound string
  | CachedResponses responses
  | RetrievingARecord string
  | ReceivedResponse DnsResponse
  | AddressChanged string string "string option"
  | Sleeping real

record request =
  uri :: string
  headers :: "(string \<times> string) list"
  json :: "(string \<times> string) list"

record answers =
  addresses :: "string list"
  expiration :: real

text \<open>
  The behaviour of the collaborators the program does not control. Every call that
  leaves the process (a clock reading, a DNS query, an HTTP request) is numbered by the
  counter \<open>step\<close> of the world, and the environment says what the call with that number
  gives: the clock's reading, the resolver's answer or exception, the HTTP status or the
  transport's exception.
\<close>

record env =
  environ :: "string \<rightharpoonup> string"
  time_at :: "nat \<Rightarrow> real"
  query_at :: "nat \<Rightarrow> string \<Rightarrow> error + answers"
  post_at :: "nat \<Rightarrow> request \<Rightarrow> error + nat"

text \<open>
  The state the program reads and writes: the files, the dict objects by identity (the
  variable \<^verbatim>\<open>responses\<close> and the \<^verbatim>\<open>functools.partial\<close> object hold a reference to the
  same dict, which \<^verbatim>\<open>responses[host] = response\<close> mutates in place), the log, the
  requests handed to \<^verbatim>\<open>requests.post\<close> and the durations handed to \<^verbatim>\<open>time.sleep\<close>.
\<close>

type_synonym ref = nat

record world =
  files :: "string \<rightharpoonup> yaml"
  heap :: "ref \<Rightarrow> responses"
  allocated :: nat
  step :: nat
  logged :: "(level \<times> log_record) list"
  posted :: "request list"
  slept :: "real list"

definition logging :: "level \<Rightarrow> log_record \<Rightarrow> world \<Rightarrow> world" where
  "logging l r w = w\<lparr>logged := logged w @ [(l, r)]\<rparr>"

definition time_time :: "env \<Rightarrow> world \<Rightarrow> real \<times> world" where
  "time_time e w = (time_at e (step w), w\<lparr>step := step w + 1\<rparr>)"

definition time_sleep :: "real \<Rightarrow> world \<Rightarrow> (error + unit) \<times> world" where
  "time_sleep secs w =
     (if secs < 0 then (Inl ValueError, w) else (Inr (), w\<lparr>slept := slept w @ [secs]\<rparr>))"

definition environ_get :: "env \<Rightarrow> string \<Rightarrow> string \<Rightarrow> string" where
  "environ_get e k dflt = (case environ e k of None \<Rightarrow> dflt | Some v \<Rightarrow> v)"

definition open_read :: "string \<Rightarrow> world \<Rightarrow> error + yaml" where
  "open_read path w = (case files w path of None \<Rightarrow> Inl FileNotFoundError | Some d \<Rightarrow> Inr d)"

definition new_dict :: "responses \<Rightarrow> world \<Rightarrow> ref \<times> world" where
  "new_dict d w =
     (allocated w, w\<lparr>heap := (heap w)(allocated w := d), allocated := allocated w + 1\<rparr>)"

section \<open>Python values\<close>

definition getitem :: "yaml \<Rightarrow> string \<Rightarrow> error + yaml" where
  "getitem v k =
     (case v of
        YMap m \<Rightarrow> (case map_of m k of None \<Rightarrow> Inl KeyError | Some x \<Rightarrow> Inr x)
      | _ \<Rightarrow> Inl TypeError)"

definition items :: "yaml \<Rightarrow> error + (string \<times> yaml) list" where
  "items v = (case v of YMap m \<Rightarrow> Inr m | _ \<Rightarrow> Inl AttributeError)"

text \<open>A dict comprehension \<^verbatim>\<open>{k: f(v) for k, v in kvs}\<close> whose \<open>f\<close> may raise.\<close>

fun dict_comprehension ::
  "('v \<Rightarrow> error + 'w) \<Rightarrow> ('k \<times> 'v) list \<Rightarrow> ('k, 'w) dict \<Rightarrow> error + ('k, 'w) dict" where
  "dict_comprehension f [] acc = Inr acc"
| "dict_comprehension f ((k, v) # kvs) acc =
     (case f v of
        Inl err \<Rightarrow> Inl err
      | Inr x \<Rightarrow> dict_comprehension f kvs (dict_setitem acc k x))"

text \<open>\<^verbatim>\<open>min\<close> of a sequence of numbers: \<^verbatim>\<open>ValueError\<close> on the empty sequence.\<close>

definition py_min :: "real list \<Rightarrow> error + real" where
  "py_min xs = (case xs of [] \<Rightarrow> Inl ValueError | x # ys \<Rightarrow> Inr (fold min ys x))"

section \<open>The program\<close>

definition to_HostConfiguration :: "yaml \<Rightarrow> error + HostConfiguration" where
  "to_HostConfiguration v =
     (case getitem v ''name'' of
        Inl err \<Rightarrow> Inl err
      | Inr a \<Rightarrow>
          (case getitem v ''webhook_uri'' of
             Inl err \<Rightarrow> Inl err
           | Inr b \<Rightarrow>
               (case (a, b) of
                  (YStr n, YStr u) \<Rightarrow> Inr \<lparr>name = n, webhook_uri = u\<rparr>
                | _ \<Rightarrow> Inl IllTyped)))"

definition load_configuration :: "string \<Rightarrow> world \<Rightarrow> (error + config) \<times> world" where
  "load_configuration path w =
     (case open_read path w of
        Inl err \<Rightarrow> (Inl err, w)
      | Inr data \<Rightarrow>
          (case items data of
             Inl err \<Rightarrow> (Inl err, w)
           | Inr kvs \<Rightarrow> (dict_comprehension to_HostConfiguration kvs [], w)))"

definition to_DnsResponse :: "yaml \<Rightarrow> error + DnsResponse" where
  "to_DnsResponse v =
     (case getitem v ''ipv4'' of
        Inl err \<Rightarrow> Inl err
      | Inr a \<Rightarrow>
          (case getitem v ''expiry'' of
             Inl err \<Rightarrow> Inl err
           | Inr b \<Rightarrow>
               (case getitem v ''response_time'' of
                  Inl err \<Rightarrow> Inl err
                | Inr c \<Rightarrow>
                    (case (a, b, c) of
                       (YStr s, YNum x, YNum t) \<Rightarrow>
                         Inr \<lparr>ipv4 = s, expiry = x, response_time = t\<rparr>
                     | _ \<Rightarrow> Inl IllTyped))))"

text \<open>
  \<^verbatim>\<open>_load_response_cache\<close>: only \<^verbatim>\<open>FileNotFoundError\<close> is caught; it is logged with
  \<^verbatim>\<open>logging.error\<close> and the empty dict is returned. An empty document loads as
  \<^verbatim>\<open>None\<close> and gives the empty dict too.
\<close>

definition load_response_cache :: "string \<Rightarrow> world \<Rightarrow> (error + responses) \<times> world" where
  "load_response_cache path w =
     (case open_read path w of
        Inl err \<Rightarrow>
          (if err = FileNotFoundError
           then (Inr [], logging ERROR (CacheFileNotFound path) w)
           else (Inl err, w))
      | Inr cache \<Rightarrow>
          (if cache = YNull then (Inr [], w)
           else (case items cache of
                   Inl err \<Rightarrow> (Inl err, w)
                 | Inr kvs \<Rightarrow> (dict_comprehension to_DnsResponse kvs [], w))))"

definition asdict :: "DnsResponse \<Rightarrow> yaml" where
  "asdict r =
     YMap [(''ipv4'', YStr (ipv4 r)), (''expiry'', YNum (expiry r)),
           (''response_time'', YNum (response_time r))]"

definition save_response_cache :: "string \<Rightarrow> responses \<Rightarrow> world \<Rightarrow> (error + unit) \<times> world" where
  "save_response_cache path rs w =
     (case dict_comprehension (\<lambda>v. Inr (asdict v)) rs [] of
        Inl err \<Rightarrow> (Inl err, w)
      | Inr dumped \<Rightarrow> (Inr (), w\<lparr>files := (files w)(path \<mapsto> YMap dumped)\<rparr>))"

text \<open>\<^verbatim>\<open>_is_response_stale\<close>: the clock is read only when the host has an entry.\<close>

definition is_response_stale :: "env \<Rightarrow> responses \<Rightarrow> string \<Rightarrow> world \<Rightarrow> bool \<times> world" where
  "is_response_stale e rs host w =
     (case dict_get rs host of
        None \<Rightarrow> (True, w)
      | Some response \<Rightarrow>
          (case time_time e w of (now, w') \<Rightarrow> (expiry response < now, w')))"

text \<open>
  \<^verbatim>\<open>_notify_webhook\<close>: \<^verbatim>\<open>requests.post\<close> raises when the transport fails; when a response
  comes back its status is not looked at.
\<close>

definition webhook_request :: "string \<Rightarrow> HostConfiguration \<Rightarrow> DnsResponse \<Rightarrow> request" where
  "webhook_request host host_config response =
     (let content = ''IP address for **'' @ name host_config @ ''** ('' @ host
                      @ '') is now **'' @ ipv4 response @ ''**''
      in \<lparr>uri = webhook_uri host_config,
          headers = [(''Content-Type'', ''application/json'')],
          json = [(''content'', content)]\<rparr>)"

definition notify_webhook ::
  "env \<Rightarrow> string \<Rightarrow> HostConfiguration \<Rightarrow> DnsResponse \<Rightarrow> world \<Rightarrow> (error + unit) \<times> world" where
  "notify_webhook e host host_config response w =
     (let req = webhook_request host host_config response;
          w' = w\<lparr>step := step w + 1, posted := posted w @ [req]\<rparr>
      in (case post_at e (step w) req of
            Inl err \<Rightarrow> (Inl err, w')
          | Inr status \<Rightarrow> (Inr (), w')))"

definition check_dns :: "env \<Rightarrow> string \<Rightarrow> world \<Rightarrow> (error + DnsResponse) \<times> world" where
  "check_dns e host w =
     (let w1 = logging DEBUG (RetrievingARecord host) w;
          w2 = w1\<lparr>step := step w1 + 1\<rparr>
      in (case query_at e (step w1) host of
            Inl err \<Rightarrow> (Inl err, w2)
          | Inr ans \<Rightarrow>
              (case addresses ans of
                 [] \<Rightarrow> (Inl IndexError, w2)
               | address # _ \<Rightarrow>
                   (case time_time e w2 of
                      (now, w3) \<Rightarrow>
                        (let response = \<lparr>ipv4 = address, expiry = expiration ans,
                                         response_time = now\<rparr>
                         in (Inr response, logging DEBUG (ReceivedResponse response) w3))))))"

text \<open>
  \<^verbatim>\<open>functools.partial(_is_response_stale, responses)\<close>: the object keeps the reference it was
  given, and each call reads the dict that reference points to at the time of the call.
\<close>

datatype partial = Partial ref

definition call :: "env \<Rightarrow> partial \<Rightarrow> string \<Rightarrow> world \<Rightarrow> bool \<times> world" where
  "call e p host w = (case p of Partial r \<Rightarrow> is_response_stale e (heap w r) host w)"

text \<open>The condition of line 97 of \<^verbatim>\<open>main\<close>, under which the webhook is notified.\<close>

definition is_notable :: "DnsResponse option \<Rightarrow> DnsResponse \<Rightarrow> bool" where
  "is_notable old_response response =
     (case old_response of None \<Rightarrow> True | Some old \<Rightarrow> ipv4 old \<noteq> ipv4 response)"

text \<open>The body of the \<^verbatim>\<open>for\<close> loop of \<^verbatim>\<open>main\<close> (lines 93 to 103), for one stale host.\<close>

definition for_body ::
  "env \<Rightarrow> ref \<Rightarrow> config \<Rightarrow> string \<Rightarrow> string \<Rightarrow> world \<Rightarrow> (error + unit) \<times> world" where
  "for_body e responses config response_cache_path stale_host w =
     (case check_dns e stale_host w of
        (Inl err, w1) \<Rightarrow> (Inl err, w1)
      | (Inr response, w1) \<Rightarrow>
          (let old_response = dict_get (heap w1 responses) stale_host;
               notified =
                 (if is_notable old_response response
                  then (let old_ipv4 = map_option ipv4 old_response;
                            w2 = logging INFO
                                   (AddressChanged stale_host (ipv4 response) old_ipv4) w1
                        in (case dict_get config stale_host of
                              None \<Rightarrow> (Inl KeyError, w2)
                            | Some host_config \<Rightarrow>
                                notify_webhook e stale_host host_config response w2))
                  else (Inr (), w1))
           in (case notified of
                 (Inl err, w3) \<Rightarrow> (Inl err, w3)
               | (Inr u, w3) \<Rightarrow>
                   (let w4 = w3\<lparr>heap := (heap w3)
                               (responses := dict_setitem (heap w3 responses) stale_host response)\<rparr>
                    in save_response_cache response_cache_path (heap w4 responses) w4))))"

text \<open>
  The \<^verbatim>\<open>for\<close> loop over \<^verbatim>\<open>filter(stale_check_predicate, config.keys())\<close>. The filter is
  lazy: the predicate is called on a host when the loop reaches it, after the bodies of
  the hosts before it have run. An exception ends the loop where it is raised.
\<close>

fun for_stale_hosts ::
  "env \<Rightarrow> partial \<Rightarrow> ref \<Rightarrow> config \<Rightarrow> string \<Rightarrow> string list \<Rightarrow> world
     \<Rightarrow> (error + unit) \<times> world" where
  "for_stale_hosts e p responses config path [] w = (Inr (), w)"
| "for_stale_hosts e p responses config path (host # hosts) w =
     (case call e p host w of
        (stale, w1) \<Rightarrow>
          (if stale
           then (case for_body e responses config path host w1 of
                   (Inl err, w2) \<Rightarrow> (Inl err, w2)
                 | (Inr u, w2) \<Rightarrow> for_stale_hosts e p responses config path hosts w2)
           else for_stale_hosts e p responses config path hosts w1))"

text \<open>Lines 105 to 110: the minimum expiry of the whole store, the sleep, the nap.\<close>

definition next_sleep :: "env \<Rightarrow> ref \<Rightarrow> world \<Rightarrow> (error + unit) \<times> world" where
  "next_sleep e responses w =
     (case py_min (map expiry (dict_values (heap w responses))) of
        Inl err \<Rightarrow> (Inl err, w)
      | Inr next_check \<Rightarrow>
          (case time_time e w of
             (now, w1) \<Rightarrow>
               (let sleep_time = max 30 (next_check - now);
                    w2 = logging DEBUG (Sleeping sleep_time) w1
                in time_sleep sleep_time w2)))"

text \<open>One pass of the body of \<^verbatim>\<open>while True\<close>.\<close>

definition cycle ::
  "env \<Rightarrow> partial \<Rightarrow> ref \<Rightarrow> config \<Rightarrow> string \<Rightarrow> world \<Rightarrow> (error + unit) \<times> world" where
  "cycle e p responses config path w =
     (case for_stale_hosts e p responses config path (dict_keys config) w of
        (Inl err, w1) \<Rightarrow> (Inl err, w1)
      | (Inr u, w1) \<Rightarrow> next_sleep e responses w1)"

text \<open>
  \<^verbatim>\<open>while True\<close> has no exit but an exception. \<open>while_true n\<close> runs at most \<open>n\<close> passes: it
  gives \<open>Some\<close> of the exception that ended the loop, or \<open>None\<close> when the loop is still
  running after \<open>n\<close> passes.
\<close>

fun while_true ::
  "nat \<Rightarrow> env \<Rightarrow> partial \<Rightarrow> ref \<Rightarrow> config \<Rightarrow> string \<Rightarrow> world \<Rightarrow> error option \<times> world" where
  "while_true 0 e p responses config path w = (None, w)"
| "while_true (Suc n) e p responses config path w =
     (case cycle e p responses config path w of
        (Inl err, w1) \<Rightarrow> (Some err, w1)
      | (Inr u, w1) \<Rightarrow> while_true n e p responses config path w1)"

definition main :: "nat \<Rightarrow> env \<Rightarrow> world \<Rightarrow> error option \<times> world" where
  "main n e w =
     (case load_configuration (environ_get e ''CONFIG_FILE'' ''config.yml'') w of
        (Inl err, w1) \<Rightarrow> (Some err, w1)
      | (Inr config, w1) \<Rightarrow>
          (let w2 = logging INFO (LoadedConfiguration config) w1;
               response_cache_path = environ_get e ''CACHE_FILE'' ''response_cache.yml''
           in (case load_response_cache response_cache_path w2 of
                 (Inl err, w3) \<Rightarrow> (Some err, w3)
               | (Inr d, w3) \<Rightarrow>
                   (case new_dict d w3 of
                      (responses, w4) \<Rightarrow>
                        (let w5 = logging INFO (CachedResponses (heap w4 responses)) w4;
                             stale_check_predicate = Partial responses
                         in while_true n e stale_check_predicate responses config
                              response_cache_path w5)))))"

section \<open>Example inputs\<close>

text \<open>
  One and two configured hosts. The resolver knows \<open>b.example\<close> only (the query for any other host
  raises), the clock stands at 1000, and the webhook answers every request with status
  500. In \<open>env_post_fails\<close> the transport raises instead.
\<close>

definition single_config :: config where
  "single_config =
     [(''b.example'', \<lparr>name = ''B'', webhook_uri = ''https://hooks.example/b''\<rparr>)]"

definition example_config :: config where
  "example_config =
     (''a.example'', \<lparr>name = ''A'', webhook_uri = ''https://hooks.example/a''\<rparr>)
       # single_config"

definition example_env :: env where
  "example_env =
     \<lparr>environ = Map.empty,
      time_at = (\<lambda>n. 1000),
      query_at = (\<lambda>n host. if host = ''b.example''
                            then Inr \<lparr>addresses = [''5.6.7.8''], expiration = 1300\<rparr>
                            else Inl DNSException),
      post_at = (\<lambda>n req. Inr 500)\<rparr>"

definition env_post_fails :: env where
  "env_post_fails = example_env\<lparr>post_at := (\<lambda>n req. Inl RequestException)\<rparr>"

definition empty_world :: world where
  "empty_world =
     \<lparr>files = Map.empty, heap = (\<lambda>r. []), allocated = 0, step = 0, logged = [],
      posted = [], slept = []\<rparr>"

text \<open>A configuration file that holds the empty mapping, and no cache file.\<close>

definition world_no_hosts :: world where
  "world_no_hosts = empty_world\<lparr>files := [''config.yml'' \<mapsto> YMap []]\<rparr>"

definition example_response :: "real \<Rightarrow> DnsResponse" where
  "example_response x = \<lparr>ipv4 = ''1.2.3.4'', expiry = x, response_time = 0\<rparr>"

text \<open>A configuration file that holds \<open>single_config\<close>, and no cache file.\<close>

definition world_one_host :: world where
  "world_one_host =
     empty_world\<lparr>files :=
       [''config.yml'' \<mapsto>
          YMap [(''b.example'',
                 YMap [(''name'', YStr ''B''),
                       (''webhook_uri'', YStr ''https://hooks.example/b'')])]]\<rparr>"

text \<open>A store that knows a host which is in no configuration.\<close>

definition world_orphan :: world where
  "world_orphan = empty_world\<lparr>heap := (\<lambda>r. [(''gone.example'', example_response 1100)])\<rparr>"

section \<open>Dicts and the cache file\<close>

lemma update_fresh: "k \<notin> fst ` set al \<Longrightarrow> AList.update k v al = al @ [(k, v)]"
  by (induction al) auto

lemma dict_comprehension_distinct:
  "\<lbrakk>\<And>v. f (h v) = Inr (g v); distinct (map fst kvs);
    fst ` set acc \<inter> fst ` set kvs = {}\<rbrakk>
   \<Longrightarrow> dict_comprehension f (map (\<lambda>(k, v). (k, h v)) kvs) acc
         = Inr (acc @ map (\<lambda>(k, v). (k, g v)) kvs)"
proof (induction kvs arbitrary: acc)
  case Nil
  then show ?case by simp
next
  case (Cons kv kvs)
  obtain k v where kv: "kv = (k, v)" by (cases kv)
  have fresh: "k \<notin> fst ` set acc" using Cons.prems(3) kv by auto
  have step: "dict_setitem acc k (g v) = acc @ [(k, g v)]"
    using fresh by (simp add: dict_setitem_def update_fresh)
  have disj: "fst ` set (acc @ [(k, g v)]) \<inter> fst ` set kvs = {}"
    using Cons.prems(2,3) kv by auto
  have "dict_comprehension f (map (\<lambda>(k, v). (k, h v)) kvs) (acc @ [(k, g v)])
          = Inr ((acc @ [(k, g v)]) @ map (\<lambda>(k, v). (k, g v)) kvs)"
    using Cons.prems(1,2) disj by (intro Cons.IH) auto
  then show ?case using kv Cons.prems(1) step by simp
qed

lemma to_DnsResponse_asdict: "to_DnsResponse (asdict r) = Inr r"
  by (simp add: to_DnsResponse_def asdict_def getitem_def)

lemma save_distinct:
  "distinct (map fst M) \<Longrightarrow>
   save_response_cache path M w
     = (Inr (), w\<lparr>files := (files w)(path \<mapsto> YMap (map (\<lambda>(k, v). (k, asdict v)) M))\<rparr>)"
  using dict_comprehension_distinct [of "\<lambda>v. Inr (asdict v)" "\<lambda>v. v" asdict M "[]"]
  by (simp add: save_response_cache_def)

lemma load_dumped:
  assumes "distinct (map fst M)"
    and "files w path = Some (YMap (map (\<lambda>(k, v). (k, asdict v)) M))"
  shows "load_response_cache path w = (Inr M, w)"
  using dict_comprehension_distinct [of to_DnsResponse asdict "\<lambda>v. v" M "[]"] assms
  by (simp add: load_response_cache_def open_read_def items_def to_DnsResponse_asdict)

section \<open>What each step leaves alone\<close>

lemma logging_simps [simp]:
  "heap (logging l x w) = heap w" "files (logging l x w) = files w"
  "step (logging l x w) = step w" "posted (logging l x w) = posted w"
  "slept (logging l x w) = slept w" "allocated (logging l x w) = allocated w"
  "logged (logging l x w) = logged w @ [(l, x)]"
  by (simp_all add: logging_def)

lemma check_dns_frame:
  "check_dns e host w = (res, w1) \<Longrightarrow>
   heap w1 = heap w \<and> files w1 = files w \<and> posted w1 = posted w \<and> slept w1 = slept w
   \<and> step w < step w1"
  by (auto simp: check_dns_def Let_def time_time_def split: sum.splits list.splits)

lemma check_dns_log:
  "check_dns e host w = (Inl err, w1) \<Longrightarrow> logged w1 = logged w @ [(DEBUG, RetrievingARecord host)]"
  by (auto simp: check_dns_def Let_def time_time_def split: sum.splits list.splits)

lemma notify_webhook_frame:
  "notify_webhook e host hc response w = (res, w1) \<Longrightarrow>
   heap w1 = heap w \<and> files w1 = files w \<and> slept w1 = slept w \<and> step w < step w1"
  by (auto simp: notify_webhook_def Let_def split: sum.splits)

lemma save_response_cache_frame:
  "save_response_cache path rs w = (res, w1) \<Longrightarrow>
   heap w1 = heap w \<and> posted w1 = posted w \<and> slept w1 = slept w \<and> step w1 = step w
   \<and> logged w1 = logged w"
  by (auto simp: save_response_cache_def split: sum.splits)

lemma call_frame:
  "call e p host w = (b, w1) \<Longrightarrow>
   heap w1 = heap w \<and> files w1 = files w \<and> posted w1 = posted w \<and> slept w1 = slept w
   \<and> logged w1 = logged w \<and> step w \<le> step w1"
  by (cases p) (auto simp: call_def is_response_stale_def time_time_def split: option.splits)

lemma for_body_store:
  assumes "for_body e r config path host w = (res, w')"
  shows "fst ` set (heap w r) \<subseteq> fst ` set (heap w' r)
         \<and> (\<forall>h. h \<noteq> host \<longrightarrow> dict_get (heap w' r) h = dict_get (heap w r) h)
         \<and> step w < step w'"
proof (cases "check_dns e host w")
  case (Pair cres w1)
  note dns = check_dns_frame [OF Pair]
  show ?thesis
  proof (cases cres)
    case (Inl err)
    with Pair assms dns show ?thesis by (simp add: for_body_def)
  next
    case (Inr response)
    show ?thesis
      using assms Pair Inr dns
      by (auto simp: for_body_def Let_def dict_get_def dict_setitem_def update_conv' dom_update
          split: sum.splits prod.splits if_splits option.splits
          dest!: notify_webhook_frame save_response_cache_frame)
        (force+)
  qed
qed

lemma for_stale_hosts_store:
  "for_stale_hosts e p r config path hosts w = (res, w') \<Longrightarrow>
   fst ` set (heap w r) \<subseteq> fst ` set (heap w' r)
   \<and> (\<forall>h. h \<notin> set hosts \<longrightarrow> dict_get (heap w' r) h = dict_get (heap w r) h)
   \<and> step w \<le> step w'"
proof (induction hosts arbitrary: w)
  case Nil
  then show ?case by simp
next
  case (Cons host hosts)
  obtain stale w1 where c: "call e p host w = (stale, w1)" by (cases "call e p host w")
  from call_frame [OF c] have cf: "heap w1 = heap w" "step w \<le> step w1" by simp_all
  show ?case
  proof (cases stale)
    case False
    with Cons.prems c have "for_stale_hosts e p r config path hosts w1 = (res, w')" by simp
    from Cons.IH [OF this] cf show ?thesis by simp
  next
    case True
    obtain bres w2 where b: "for_body e r config path host w1 = (bres, w2)"
      by (cases "for_body e r config path host w1")
    from for_body_store [OF b] cf have bs:
      "fst ` set (heap w r) \<subseteq> fst ` set (heap w2 r)"
      "\<forall>h. h \<noteq> host \<longrightarrow> dict_get (heap w2 r) h = dict_get (heap w r) h"
      "step w \<le> step w2" by simp_all
    show ?thesis
    proof (cases bres)
      case (Inl err)
      with Cons.prems c True b have "w' = w2" by simp
      with bs show ?thesis by simp
    next
      case (Inr u)
      with Cons.prems c True b
      have "for_stale_hosts e p r config path hosts w2 = (res, w')" by simp
      from Cons.IH [OF this] have ih:
        "fst ` set (heap w2 r) \<subseteq> fst ` set (heap w' r)"
        "\<forall>h. h \<notin> set hosts \<longrightarrow> dict_get (heap w' r) h = dict_get (heap w2 r) h"
        "step w2 \<le> step w'" by simp_all
      have "fst ` set (heap w r) \<subseteq> fst ` set (heap w' r)"
        using ih(1) bs(1) by (rule_tac subset_trans)
      moreover have "\<forall>h. h \<notin> set (host # hosts)
                       \<longrightarrow> dict_get (heap w' r) h = dict_get (heap w r) h"
        using ih(2) bs(2) by simp
      moreover have "step w \<le> step w'" using ih(3) bs(3) by simp
      ultimately show ?thesis by simp
    qed
  qed
qed

section \<open>The sleep\<close>

lemma fold_min_Min: "fold min ys (x::real) = Min (set (x # ys))"
  using Min.set_eq_fold [of x ys] by simp

lemma py_min_Min: "xs \<noteq> [] \<Longrightarrow> py_min xs = Inr (Min (set xs))"
proof (cases xs)
  case Nil
  assume "xs \<noteq> []"
  with Nil show ?thesis by simp
next
  case (Cons x ys)
  have "py_min (x # ys) = Inr (fold min ys x)" by (simp add: py_min_def)
  also have "fold min ys x = Min (set (x # ys))" by (rule fold_min_Min)
  finally show ?thesis using Cons by simp
qed

lemma next_sleep_empty: "heap w r = [] \<Longrightarrow> next_sleep e r w = (Inl ValueError, w)"
  by (simp add: next_sleep_def py_min_def dict_values_def)

lemma next_sleep_nonempty:
  assumes "heap w r \<noteq> []"
  shows "next_sleep e r w =
           (Inr (), (logging DEBUG
              (Sleeping (max 30 (Min (expiry ` snd ` set (heap w r)) - time_at e (step w))))
              (w\<lparr>step := step w + 1\<rparr>))
            \<lparr>slept := slept w @ [max 30 (Min (expiry ` snd ` set (heap w r)) - time_at e (step w))]\<rparr>)"
proof -
  have "map expiry (dict_values (heap w r)) \<noteq> []" using assms by (simp add: dict_values_def)
  from py_min_Min [OF this]
  have "py_min (map expiry (dict_values (heap w r))) = Inr (Min (expiry ` snd ` set (heap w r)))"
    by (simp add: dict_values_def image_image)
  then show ?thesis
    by (simp add: next_sleep_def time_time_def Let_def time_sleep_def)
qed

lemma next_sleep_frame:
  "next_sleep e r w = (res, w1) \<Longrightarrow>
   heap w1 = heap w \<and> files w1 = files w \<and> posted w1 = posted w \<and> step w \<le> step w1"
proof (cases "heap w r = []")
  case True
  assume "next_sleep e r w = (res, w1)"
  with next_sleep_empty [OF True, of e] show ?thesis by simp
next
  case False
  assume "next_sleep e r w = (res, w1)"
  with next_sleep_nonempty [OF False, of e] have
    "w1 = (logging DEBUG
              (Sleeping (max 30 (Min (expiry ` snd ` set (heap w r)) - time_at e (step w))))
              (w\<lparr>step := step w + 1\<rparr>))
            \<lparr>slept := slept w @ [max 30 (Min (expiry ` snd ` set (heap w r)) - time_at e (step w))]\<rparr>"
    by simp
  then show ?thesis by simp
qed

section \<open>The example run\<close>

lemmas example_defs =
  example_env_def env_post_fails_def empty_world_def single_config_def example_config_def
  example_response_def world_no_hosts_def world_one_host_def world_orphan_def

lemmas program_defs =
  call_def is_response_stale_def dict_get_def dict_setitem_def dict_keys_def dict_values_def
  for_body_def check_dns_def time_time_def logging_def is_notable_def notify_webhook_def
  webhook_request_def save_response_cache_def asdict_def cycle_def next_sleep_def py_min_def
  time_sleep_def Let_def

lemma single_run:
  "fst (for_stale_hosts example_env (Partial 0) 0 single_config ''response_cache.yml''
          (dict_keys single_config) empty_world) = Inr ()"
  "heap (snd (for_stale_hosts example_env (Partial 0) 0 single_config ''response_cache.yml''
          (dict_keys single_config) empty_world)) 0
     = [(''b.example'', \<lparr>ipv4 = ''5.6.7.8'', expiry = 1300, response_time = 1000\<rparr>)]"
  "step (snd (for_stale_hosts example_env (Partial 0) 0 single_config ''response_cache.yml''
          (dict_keys single_config) empty_world)) = 3"
  "slept (snd (for_stale_hosts example_env (Partial 0) 0 single_config ''response_cache.yml''
          (dict_keys single_config) empty_world)) = []"
  by (simp_all add: example_defs program_defs)

section \<open>The sleep between two cycles\<close>

text \<open>
  C1. When the loop over the stale hosts has ended without an exception and the store is
  not empty, the cycle sleeps \<open>max 30 (next_check - now)\<close>, where \<open>next_check\<close> is the least
  expiry over all the entries of the store and \<open>now\<close> the clock's reading at that moment.
  With the entries \<open>{A: now + 10, B: now + 500}\<close> the sleep is 30; with \<open>{A: now + 100}\<close>
  alone it is 100.
\<close>

theorem next_check_sleep_duration:
  "(for_stale_hosts e p r config path (dict_keys config) w = (Inr (), w1) \<and> heap w1 r \<noteq> []
      \<longrightarrow> fst (cycle e p r config path w) = Inr ()
          \<and> slept (snd (cycle e p r config path w))
              = slept w1 @ [max 30 (Min (expiry ` snd ` set (heap w1 r)) - time_at e (step w1))])
   \<and> (heap w r = [(a, ra), (b, rb)] \<and> expiry ra = time_at e (step w) + 10
        \<and> expiry rb = time_at e (step w) + 500
      \<longrightarrow> slept (snd (next_sleep e r w)) = slept w @ [30])
   \<and> (heap w r = [(a, ra)] \<and> expiry ra = time_at e (step w) + 100
      \<longrightarrow> slept (snd (next_sleep e r w)) = slept w @ [100])"
proof (intro conjI impI)
  assume a: "for_stale_hosts e p r config path (dict_keys config) w = (Inr (), w1)
               \<and> heap w1 r \<noteq> []"
  then have c: "cycle e p r config path w = next_sleep e r w1" by (simp add: cycle_def)
  from a have ne: "heap w1 r \<noteq> []" by simp
  show "fst (cycle e p r config path w) = Inr ()"
    by (simp add: c next_sleep_nonempty [OF ne])
  show "slept (snd (cycle e p r config path w))
          = slept w1 @ [max 30 (Min (expiry ` snd ` set (heap w1 r)) - time_at e (step w1))]"
    by (simp add: c next_sleep_nonempty [OF ne])
next
  assume a: "heap w r = [(a, ra), (b, rb)] \<and> expiry ra = time_at e (step w) + 10
        \<and> expiry rb = time_at e (step w) + 500"
  then have ne: "heap w r \<noteq> []" by simp
  show "slept (snd (next_sleep e r w)) = slept w @ [30]"
    using a by (simp add: next_sleep_nonempty [OF ne])
next
  assume a: "heap w r = [(a, ra)] \<and> expiry ra = time_at e (step w) + 100"
  then have ne: "heap w r \<noteq> []" by simp
  show "slept (snd (next_sleep e r w)) = slept w @ [100]"
    using a by (simp add: next_sleep_nonempty [OF ne])
qed

theorem next_check_sleep_duration_witness:
  "fst (for_stale_hosts example_env (Partial 0) 0 single_config ''response_cache.yml''
          (dict_keys single_config) empty_world) = Inr ()
   \<and> heap (snd (for_stale_hosts example_env (Partial 0) 0 single_config ''response_cache.yml''
          (dict_keys single_config) empty_world)) 0 \<noteq> []
   \<and> fst (cycle example_env (Partial 0) 0 single_config ''response_cache.yml'' empty_world) = Inr ()
   \<and> slept (snd (cycle example_env (Partial 0) 0 single_config ''response_cache.yml'' empty_world))
       = [300]
   \<and> slept (snd (next_sleep example_env 0
        (empty_world\<lparr>heap := (\<lambda>r. [(''a.example'', example_response 1010),
                                     (''b.example'', example_response 1500)])\<rparr>))) = [30]
   \<and> slept (snd (next_sleep example_env 0
        (empty_world\<lparr>heap := (\<lambda>r. [(''a.example'', example_response 1100)])\<rparr>))) = [100]"
  using next_check_sleep_duration [where e = example_env and p = "Partial 0" and r = 0
      and config = single_config and path = "''response_cache.yml''" and w = empty_world
      and ?w1.0 = "snd (for_stale_hosts example_env (Partial 0) 0 single_config
          ''response_cache.yml'' (dict_keys single_config) empty_world)"]
    next_check_sleep_duration [where e = example_env and r = 0
      and w = "empty_world\<lparr>heap := (\<lambda>r. [(''a.example'', example_response 1010),
                                     (''b.example'', example_response 1500)])\<rparr>"
      and a = "''a.example''" and b = "''b.example''" and ra = "example_response 1010"
      and rb = "example_response 1500"]
    next_check_sleep_duration [where e = example_env and r = 0
      and w = "empty_world\<lparr>heap := (\<lambda>r. [(''a.example'', example_response 1100)])\<rparr>"
      and a = "''a.example''" and ra = "example_response 1100"]
    single_run
  by (simp add: prod_eq_iff example_defs)

text \<open>
  C2. With no host configured and no cache file, the store is empty when the first cycle
  reaches line 105: \<^verbatim>\<open>min\<close> is called on an empty sequence, and the \<^verbatim>\<open>ValueError\<close> it raises
  ends \<^verbatim>\<open>main\<close>. No sleep of 30 seconds is taken.
\<close>

theorem empty_store_raises_ValueError:
  "fst (main 1 example_env world_no_hosts) = Some ValueError
   \<and> slept (snd (main 1 example_env world_no_hosts)) = []"
  by (simp add: main_def world_no_hosts_def empty_world_def example_env_def environ_get_def
      load_configuration_def open_read_def items_def load_response_cache_def new_dict_def
      cycle_def dict_keys_def next_sleep_def py_min_def dict_values_def Let_def)

section \<open>Staleness\<close>

text \<open>
  C3, as the specification states it, fails where the expiry equals the clock's reading:
  line 51 compares with \<^verbatim>\<open><\<close>, so an entry that expires exactly now is not stale yet.
\<close>

theorem is_stale_at_expiry_counterexample:
  "dict_get [(''a.example'', example_response 1000)] ''a.example''
     = Some (example_response 1000)
   \<and> expiry (example_response 1000) \<le> time_at example_env (step empty_world)
   \<and> \<not> fst (is_response_stale example_env [(''a.example'', example_response 1000)]
              ''a.example'' empty_world)"
  by (simp add: is_response_stale_def time_time_def dict_get_def example_defs)

text \<open>
  C3, amended. A host absent from the store is stale; a host whose entry has
  \<open>expiry \<ge> now\<close> is not stale; a host whose entry has \<open>expiry < now\<close> is stale. Here \<open>now\<close>
  is the reading that \<^verbatim>\<open>time.time()\<close> returns inside \<^verbatim>\<open>_is_response_stale\<close>.
\<close>

theorem is_response_stale_cases:
  "(dict_get rs host = None \<longrightarrow> fst (is_response_stale e rs host w))
   \<and> (\<forall>r. dict_get rs host = Some r \<and> expiry r \<ge> time_at e (step w)
          \<longrightarrow> \<not> fst (is_response_stale e rs host w))
   \<and> (\<forall>r. dict_get rs host = Some r \<and> expiry r < time_at e (step w)
          \<longrightarrow> fst (is_response_stale e rs host w))"
  by (auto simp: is_response_stale_def time_time_def)

theorem is_response_stale_cases_witness:
  "dict_get [] ''a.example'' = (None :: DnsResponse option)
   \<and> fst (is_response_stale example_env [] ''a.example'' empty_world)
   \<and> dict_get [(''a.example'', example_response 1000)] ''a.example''
       = Some (example_response 1000)
   \<and> expiry (example_response 1000) \<ge> time_at example_env (step empty_world)
   \<and> \<not> fst (is_response_stale example_env [(''a.example'', example_response 1000)]
              ''a.example'' empty_world)
   \<and> dict_get [(''a.example'', example_response 999)] ''a.example''
       = Some (example_response 999)
   \<and> expiry (example_response 999) < time_at example_env (step empty_world)
   \<and> fst (is_response_stale example_env [(''a.example'', example_response 999)]
            ''a.example'' empty_world)"
  using is_response_stale_cases [of "[]" "''a.example''" example_env empty_world]
    is_response_stale_cases [of "[(''a.example'', example_response 1000)]" "''a.example''"
      example_env empty_world]
    is_response_stale_cases [of "[(''a.example'', example_response 999)]" "''a.example''"
      example_env empty_world]
  by (simp add: dict_get_def example_defs)

section \<open>Persistence\<close>

text \<open>
  C7. Saving a mapping from hostnames to responses (a dict: its keys are distinct) and
  loading the file again gives the mapping back, for every path and every mapping, the
  empty one included. Neither step raises.
\<close>

theorem cache_round_trip:
  "distinct (map fst M) \<Longrightarrow>
   fst (save_response_cache path M w) = Inr ()
   \<and> fst (load_response_cache path (snd (save_response_cache path M w))) = Inr M"
  by (simp add: save_distinct load_dumped)

theorem cache_round_trip_witness:
  "distinct (map fst [(''a.example'', example_response 1010),
                      (''b.example'', example_response 1500)])
   \<and> fst (save_response_cache ''response_cache.yml''
            [(''a.example'', example_response 1010), (''b.example'', example_response 1500)]
            empty_world) = Inr ()
   \<and> fst (load_response_cache ''response_cache.yml''
            (snd (save_response_cache ''response_cache.yml''
               [(''a.example'', example_response 1010), (''b.example'', example_response 1500)]
               empty_world)))
       = Inr [(''a.example'', example_response 1010), (''b.example'', example_response 1500)]"
proof -
  have d: "distinct (map fst [(''a.example'', example_response 1010),
                              (''b.example'', example_response 1500)])"
    by simp
  show ?thesis
    using d cache_round_trip [OF d, of "''response_cache.yml''" empty_world] by simp
qed

section \<open>A resolution that fails\<close>

text \<open>
  C6, as the specification states it, fails: \<^verbatim>\<open>_check_dns\<close> is called with no
  \<^verbatim>\<open>try\<close> around it, so the exception of the first host ends the \<^verbatim>\<open>for\<close> loop and the
  cycle. Both hosts are stale, the first query raises, the second would have been
  answered; the cycle ends with the exception and the second host is neither stored nor
  written to the cache file.
\<close>

theorem resolution_failure_counterexample:
  "fst (call example_env (Partial 0) ''a.example'' empty_world)
   \<and> fst (call example_env (Partial 0) ''b.example'' empty_world)
   \<and> fst (check_dns example_env ''a.example'' empty_world) = Inl DNSException
   \<and> fst (check_dns example_env ''b.example'' empty_world)
       = Inr \<lparr>ipv4 = ''5.6.7.8'', expiry = 1300, response_time = 1000\<rparr>
   \<and> fst (cycle example_env (Partial 0) 0 example_config ''response_cache.yml'' empty_world)
       = Inl DNSException
   \<and> dict_get (heap (snd (cycle example_env (Partial 0) 0 example_config
                             ''response_cache.yml'' empty_world)) 0) ''b.example'' = None
   \<and> files (snd (cycle example_env (Partial 0) 0 example_config
                    ''response_cache.yml'' empty_world)) ''response_cache.yml'' = None"
  by (simp add: example_defs program_defs)

text \<open>
  C6, amended. When the resolution of the first stale host fails, the exception ends the
  cycle: no later host is resolved (the log gains the one record of the failed query),
  nothing is posted, and the store, all its entries, and the files are as they were.
\<close>

theorem resolution_failure_aborts_cycle:
  assumes "dict_keys config = h # hosts" and "call e p h w = (True, w1)"
    and "fst (check_dns e h w1) = Inl err"
  shows "fst (cycle e p r config path w) = Inl err
         \<and> heap (snd (cycle e p r config path w)) = heap w
         \<and> files (snd (cycle e p r config path w)) = files w
         \<and> posted (snd (cycle e p r config path w)) = posted w
         \<and> slept (snd (cycle e p r config path w)) = slept w
         \<and> logged (snd (cycle e p r config path w)) = logged w @ [(DEBUG, RetrievingARecord h)]"
proof -
  obtain w2 where d: "check_dns e h w1 = (Inl err, w2)"
    using assms(3) by (cases "check_dns e h w1") simp
  have b: "for_body e r config path h w1 = (Inl err, w2)" by (simp add: for_body_def d)
  have c: "cycle e p r config path w = (Inl err, w2)"
    by (simp add: cycle_def assms(1,2) b)
  from call_frame [OF assms(2)] check_dns_frame [OF d] check_dns_log [OF d]
  show ?thesis by (simp add: c)
qed

theorem resolution_failure_aborts_cycle_witness:
  "dict_keys example_config = ''a.example'' # [''b.example'']
   \<and> call example_env (Partial 0) ''a.example'' empty_world = (True, empty_world)
   \<and> fst (check_dns example_env ''a.example'' empty_world) = Inl DNSException
   \<and> fst (cycle example_env (Partial 0) 0 example_config ''response_cache.yml'' empty_world)
       = Inl DNSException
   \<and> heap (snd (cycle example_env (Partial 0) 0 example_config ''response_cache.yml''
                   empty_world)) = heap empty_world
   \<and> logged (snd (cycle example_env (Partial 0) 0 example_config ''response_cache.yml''
                   empty_world)) = [(DEBUG, RetrievingARecord ''a.example'')]"
proof -
  have k: "dict_keys example_config = ''a.example'' # [''b.example'']"
    by (simp add: example_defs dict_keys_def)
  have c: "call example_env (Partial 0) ''a.example'' empty_world = (True, empty_world)"
    by (simp add: example_defs program_defs)
  have d: "fst (check_dns example_env ''a.example'' empty_world) = Inl DNSException"
    by (simp add: example_defs program_defs)
  show ?thesis
    using k c d resolution_failure_aborts_cycle [OF k c d, of 0 "''response_cache.yml''"]
    by (simp add: empty_world_def)
qed

section \<open>A missing cache file\<close>

text \<open>
  C8. When the cache file is missing, \<^verbatim>\<open>_load_response_cache\<close> raises nothing: it returns
  the empty dict and logs one record that names the path (the code logs it with
  \<^verbatim>\<open>logging.error\<close>). \<^verbatim>\<open>main\<close> then enters its loop with an empty store.
\<close>

theorem missing_cache_file_not_fatal:
  "(files w path = None \<longrightarrow>
      load_response_cache path w = (Inr [], logging ERROR (CacheFileNotFound path) w))
   \<and> (fst (load_configuration (environ_get e ''CONFIG_FILE'' ''config.yml'') w) = Inr config
        \<and> files w (environ_get e ''CACHE_FILE'' ''response_cache.yml'') = None \<longrightarrow>
       (\<exists>w'. main n e w = while_true n e (Partial (allocated w)) (allocated w) config
                 (environ_get e ''CACHE_FILE'' ''response_cache.yml'') w'
             \<and> heap w' (allocated w) = []
             \<and> (ERROR, CacheFileNotFound (environ_get e ''CACHE_FILE'' ''response_cache.yml''))
                  \<in> set (logged w')))"
proof (intro conjI impI)
  assume "files w path = None"
  then show "load_response_cache path w = (Inr [], logging ERROR (CacheFileNotFound path) w)"
    by (simp add: load_response_cache_def open_read_def)
next
  let ?cp = "environ_get e ''CACHE_FILE'' ''response_cache.yml''"
  assume a: "fst (load_configuration (environ_get e ''CONFIG_FILE'' ''config.yml'') w) = Inr config
        \<and> files w ?cp = None"
  have lc: "load_configuration (environ_get e ''CONFIG_FILE'' ''config.yml'') w = (Inr config, w)"
    using a by (auto simp: load_configuration_def split: sum.splits)
  have lr: "load_response_cache ?cp (logging INFO (LoadedConfiguration config) w)
              = (Inr [], logging ERROR (CacheFileNotFound ?cp)
                           (logging INFO (LoadedConfiguration config) w))"
    using a by (simp add: load_response_cache_def open_read_def)
  show "\<exists>w'. main n e w = while_true n e (Partial (allocated w)) (allocated w) config ?cp w'
             \<and> heap w' (allocated w) = []
             \<and> (ERROR, CacheFileNotFound ?cp) \<in> set (logged w')"
  proof (intro exI conjI)
    let ?w' = "logging INFO (CachedResponses [])
                 (logging ERROR (CacheFileNotFound ?cp)
                    (logging INFO (LoadedConfiguration config) w)
                  \<lparr>heap := (heap w)(allocated w := []), allocated := allocated w + 1\<rparr>)"
    show "main n e w = while_true n e (Partial (allocated w)) (allocated w) config ?cp ?w'"
      by (simp add: main_def lc lr Let_def new_dict_def)
    show "heap ?w' (allocated w) = []" by simp
    show "(ERROR, CacheFileNotFound ?cp) \<in> set (logged ?w')" by simp
  qed
qed

theorem missing_cache_file_not_fatal_witness:
  "files world_one_host ''response_cache.yml'' = None
   \<and> load_response_cache ''response_cache.yml'' world_one_host
       = (Inr [], logging ERROR (CacheFileNotFound ''response_cache.yml'') world_one_host)
   \<and> fst (load_configuration (environ_get example_env ''CONFIG_FILE'' ''config.yml'')
            world_one_host) = Inr single_config
   \<and> files world_one_host (environ_get example_env ''CACHE_FILE'' ''response_cache.yml'') = None
   \<and> (\<exists>w'. main 1 example_env world_one_host
               = while_true 1 example_env (Partial (allocated world_one_host))
                   (allocated world_one_host) single_config
                   (environ_get example_env ''CACHE_FILE'' ''response_cache.yml'') w'
             \<and> heap w' (allocated world_one_host) = []
             \<and> (ERROR, CacheFileNotFound
                          (environ_get example_env ''CACHE_FILE'' ''response_cache.yml''))
                  \<in> set (logged w'))"
proof -
  have f: "files world_one_host ''response_cache.yml'' = None"
    by (simp add: example_defs)
  have g: "environ_get example_env ''CACHE_FILE'' ''response_cache.yml'' = ''response_cache.yml''"
    by (simp add: example_defs environ_get_def)
  have l: "fst (load_configuration (environ_get example_env ''CONFIG_FILE'' ''config.yml'')
            world_one_host) = Inr single_config"
    by (simp add: example_defs environ_get_def load_configuration_def open_read_def items_def
        to_HostConfiguration_def getitem_def dict_setitem_def)
  show ?thesis
    using f g l
      missing_cache_file_not_fatal [of world_one_host "''response_cache.yml''" example_env single_config 1]
    by simp
qed

section \<open>Entries are never deleted\<close>

lemma orphan_run:
  "fst (cycle example_env (Partial 0) 0 single_config ''response_cache.yml'' world_orphan)
     = Inr ()"
  "heap (snd (cycle example_env (Partial 0) 0 single_config ''response_cache.yml''
                world_orphan)) 0
     = [(''gone.example'', example_response 1100),
        (''b.example'', \<lparr>ipv4 = ''5.6.7.8'', expiry = 1300, response_time = 1000\<rparr>)]"
  "slept (snd (cycle example_env (Partial 0) 0 single_config ''response_cache.yml''
                 world_orphan)) = [100]"
  by (simp_all add: example_defs program_defs)

lemma orphan_step:
  "step (snd (cycle example_env (Partial 0) 0 single_config ''response_cache.yml''
                 world_orphan)) = 4"
  by (simp add: example_defs program_defs)

text \<open>
  C9. Whatever a cycle does and however it ends, the hostnames of the store afterwards
  include those before. A host that is not in the configuration keeps its entry as it
  is, and when the cycle reaches its sleep that entry is among those the minimum was
  taken over: the sleep is at most \<open>max 30 (expiry - now)\<close> for it.
\<close>

theorem store_never_shrinks:
  "cycle e p r config path w = (res, w') \<longrightarrow>
      set (dict_keys (heap w r)) \<subseteq> set (dict_keys (heap w' r))
      \<and> (\<forall>h resp. h \<notin> set (dict_keys config) \<and> dict_get (heap w r) h = Some resp \<longrightarrow>
             dict_get (heap w' r) h = Some resp
             \<and> (res = Inr () \<longrightarrow>
                  last (slept w') \<le> max 30 (expiry resp - time_at e (step w' - 1))))"
proof (intro conjI impI allI)
  assume c: "cycle e p r config path w = (res, w')"
  obtain fres w1 where f: "for_stale_hosts e p r config path (dict_keys config) w = (fres, w1)"
    by (cases "for_stale_hosts e p r config path (dict_keys config) w")
  note fs = for_stale_hosts_store [OF f]
  have hp: "heap w' = heap w1"
  proof (cases fres)
    case (Inl err)
    with c f show ?thesis by (simp add: cycle_def)
  next
    case (Inr u)
    with c f have "next_sleep e r w1 = (res, w')" by (simp add: cycle_def)
    from next_sleep_frame [OF this] show ?thesis by simp
  qed
  show "set (dict_keys (heap w r)) \<subseteq> set (dict_keys (heap w' r))"
    using fs hp by (simp add: dict_keys_def)
  fix h resp
  assume a: "h \<notin> set (dict_keys config) \<and> dict_get (heap w r) h = Some resp"
  then have kept: "dict_get (heap w1 r) h = Some resp" using fs by simp
  then show "dict_get (heap w' r) h = Some resp" using hp by simp
  assume ok: "res = Inr ()"
  have n: "next_sleep e r w1 = (Inr (), w')"
  proof (cases fres)
    case (Inl err)
    with c f ok show ?thesis by (simp add: cycle_def)
  next
    case (Inr u)
    with c f ok show ?thesis by (simp add: cycle_def)
  qed
  from kept have mem: "(h, resp) \<in> set (heap w1 r)"
    by (simp add: dict_get_def map_of_SomeD)
  then have ne: "heap w1 r \<noteq> []" by auto
  have "expiry resp \<in> expiry ` snd ` set (heap w1 r)" using mem by force
  then have le: "Min (expiry ` snd ` set (heap w1 r)) \<le> expiry resp" by simp
  from n have w': "w' = (logging DEBUG
              (Sleeping (max 30 (Min (expiry ` snd ` set (heap w1 r)) - time_at e (step w1))))
              (w1\<lparr>step := step w1 + 1\<rparr>))
            \<lparr>slept := slept w1 @ [max 30 (Min (expiry ` snd ` set (heap w1 r)) - time_at e (step w1))]\<rparr>"
    by (simp add: next_sleep_nonempty [OF ne])
  have "last (slept w') = max 30 (Min (expiry ` snd ` set (heap w1 r)) - time_at e (step w1))"
    by (subst w') simp
  moreover have "step w' - 1 = step w1" by (subst w') simp
  ultimately show "last (slept w') \<le> max 30 (expiry resp - time_at e (step w' - 1))"
    using le by simp
qed

theorem store_never_shrinks_witness:
  "set (dict_keys (heap world_orphan 0)) = {''gone.example''}
   \<and> set (dict_keys (heap (snd (cycle example_env (Partial 0) 0 single_config
                                   ''response_cache.yml'' world_orphan)) 0))
       = {''gone.example'', ''b.example''}
   \<and> ''gone.example'' \<notin> set (dict_keys single_config)
   \<and> dict_get (heap world_orphan 0) ''gone.example'' = Some (example_response 1100)
   \<and> dict_get (heap (snd (cycle example_env (Partial 0) 0 single_config
                             ''response_cache.yml'' world_orphan)) 0) ''gone.example''
       = Some (example_response 1100)
   \<and> fst (cycle example_env (Partial 0) 0 single_config ''response_cache.yml'' world_orphan)
       = Inr ()
   \<and> last (slept (snd (cycle example_env (Partial 0) 0 single_config ''response_cache.yml''
                          world_orphan))) \<le> 100"
  using store_never_shrinks [where e = example_env and p = "Partial 0" and r = 0 and config = single_config
      and path = "''response_cache.yml''" and w = world_orphan
      and res = "fst (cycle example_env (Partial 0) 0 single_config
                        ''response_cache.yml'' world_orphan)"
      and w' = "snd (cycle example_env (Partial 0) 0 single_config
                        ''response_cache.yml'' world_orphan)"]
    orphan_run orphan_step
  by (simp add: example_defs dict_keys_def dict_get_def)

section \<open>The body of the loop, for a host that resolves\<close>

lemma for_body_resolved:
  assumes dns: "check_dns e host w = (Inr response, w1)"
    and cfg: "dict_get config host = Some hc"
  shows "for_body e r config path host w =
     (let store = (\<lambda>w3. save_response_cache path (dict_setitem (heap w r) host response)
                     (w3\<lparr>heap := (heap w)(r := dict_setitem (heap w r) host response)\<rparr>));
          w2 = (logging INFO (AddressChanged host (ipv4 response)
                               (map_option ipv4 (dict_get (heap w r) host))) w1)
                 \<lparr>step := step w1 + 1,
                  posted := posted w @ [webhook_request host hc response]\<rparr>
      in if is_notable (dict_get (heap w r) host) response
         then (case post_at e (step w1) (webhook_request host hc response) of
                 Inl err \<Rightarrow> (Inl err, w2)
               | Inr status \<Rightarrow> store w2)
         else store w1)"
  using check_dns_frame [OF dns]
  by (simp add: for_body_def dns cfg Let_def notify_webhook_def split: sum.splits)

lemma is_notable_iff:
  "is_notable old response
     \<longleftrightarrow> old = None \<or> (\<exists>prev. old = Some prev \<and> ipv4 prev \<noteq> ipv4 response)"
  by (cases old) (simp_all add: is_notable_def)

lemma distinct_setitem:
  "distinct (map fst d) \<Longrightarrow> distinct (map fst (dict_setitem d k v))"
  by (simp add: dict_setitem_def distinct_update)

lemma get_setitem: "dict_get (dict_setitem d k v) k = Some v"
  by (simp add: dict_get_def dict_setitem_def update_conv')

lemma b_resolves:
  "check_dns example_env ''b.example'' empty_world
     = (Inr \<lparr>ipv4 = ''5.6.7.8'', expiry = 1300, response_time = 1000\<rparr>,
        snd (check_dns example_env ''b.example'' empty_world))"
  "check_dns env_post_fails ''b.example'' empty_world
     = (Inr \<lparr>ipv4 = ''5.6.7.8'', expiry = 1300, response_time = 1000\<rparr>,
        snd (check_dns env_post_fails ''b.example'' empty_world))"
  "step (snd (check_dns example_env ''b.example'' empty_world)) = 2"
  "step (snd (check_dns env_post_fails ''b.example'' empty_world)) = 2"
  "dict_get single_config ''b.example''
     = Some \<lparr>name = ''B'', webhook_uri = ''https://hooks.example/b''\<rparr>"
  by (simp_all add: example_defs check_dns_def time_time_def logging_def Let_def dict_get_def)

section \<open>Change detection\<close>

text \<open>
  C4. For a host that resolves, the webhook is notified exactly when the store had no
  entry for the host or the entry's \<open>ipv4\<close> differs from the new one: one request is
  posted then, none otherwise. Comparing a response with itself, or with one that
  differs in \<open>expiry\<close> and \<open>response_time\<close> only, is not notable; a first resolution is.
\<close>

theorem notable_iff_first_or_changed:
  "(check_dns e host w = (Inr response, w1) \<and> dict_get config host = Some hc \<longrightarrow>
      posted (snd (for_body e r config path host w))
        = posted w @ (if dict_get (heap w r) host = None
                         \<or> (\<exists>prev. dict_get (heap w r) host = Some prev
                                    \<and> ipv4 prev \<noteq> ipv4 response)
                      then [webhook_request host hc response] else []))
   \<and> \<not> is_notable (Some response) response
   \<and> \<not> is_notable (Some (response\<lparr>expiry := x, response_time := t\<rparr>)) response
   \<and> is_notable None response"
proof (intro conjI impI)
  assume a: "check_dns e host w = (Inr response, w1) \<and> dict_get config host = Some hc"
  then have dns: "check_dns e host w = (Inr response, w1)"
    and cfg: "dict_get config host = Some hc" by simp_all
  note fr = check_dns_frame [OF dns]
  let ?d = "dict_setitem (heap w r) host response"
  have sv: "\<And>w3. posted (snd (save_response_cache path ?d w3)) = posted w3"
    using save_response_cache_frame [of path ?d] by (metis prod.collapse)
  show "posted (snd (for_body e r config path host w))
        = posted w @ (if dict_get (heap w r) host = None
                         \<or> (\<exists>prev. dict_get (heap w r) host = Some prev
                                    \<and> ipv4 prev \<noteq> ipv4 response)
                      then [webhook_request host hc response] else [])"
    using fr
    by (simp add: for_body_resolved [OF dns cfg] Let_def sv is_notable_iff [symmetric]
        split: sum.splits)
qed (simp_all add: is_notable_def)

theorem notable_iff_first_or_changed_witness:
  "check_dns example_env ''b.example'' empty_world
     = (Inr \<lparr>ipv4 = ''5.6.7.8'', expiry = 1300, response_time = 1000\<rparr>,
        snd (check_dns example_env ''b.example'' empty_world))
   \<and> dict_get single_config ''b.example''
       = Some \<lparr>name = ''B'', webhook_uri = ''https://hooks.example/b''\<rparr>
   \<and> dict_get (heap empty_world 0) ''b.example'' = None
   \<and> posted (snd (for_body example_env 0 single_config ''response_cache.yml'' ''b.example''
                     empty_world))
       = [webhook_request ''b.example''
            \<lparr>name = ''B'', webhook_uri = ''https://hooks.example/b''\<rparr>
            \<lparr>ipv4 = ''5.6.7.8'', expiry = 1300, response_time = 1000\<rparr>]
   \<and> check_dns example_env ''b.example''
        (empty_world\<lparr>heap := (\<lambda>r. [(''b.example'',
            \<lparr>ipv4 = ''5.6.7.8'', expiry = 900, response_time = 600\<rparr>)])\<rparr>)
       = (Inr \<lparr>ipv4 = ''5.6.7.8'', expiry = 1300, response_time = 1000\<rparr>,
          snd (check_dns example_env ''b.example''
             (empty_world\<lparr>heap := (\<lambda>r. [(''b.example'',
                 \<lparr>ipv4 = ''5.6.7.8'', expiry = 900, response_time = 600\<rparr>)])\<rparr>)))
   \<and> posted (snd (for_body example_env 0 single_config ''response_cache.yml'' ''b.example''
        (empty_world\<lparr>heap := (\<lambda>r. [(''b.example'',
            \<lparr>ipv4 = ''5.6.7.8'', expiry = 900, response_time = 600\<rparr>)])\<rparr>))) = []"
proof -
  let ?known = "empty_world\<lparr>heap := (\<lambda>r. [(''b.example'',
            \<lparr>ipv4 = ''5.6.7.8'', expiry = 900, response_time = 600\<rparr>)])\<rparr>"
  have k: "check_dns example_env ''b.example'' ?known
       = (Inr \<lparr>ipv4 = ''5.6.7.8'', expiry = 1300, response_time = 1000\<rparr>,
          snd (check_dns example_env ''b.example'' ?known))"
    by (simp add: example_defs check_dns_def time_time_def logging_def Let_def)
  have g: "dict_get (heap empty_world 0) ''b.example'' = None"
    "dict_get (heap ?known 0) ''b.example''
       = Some \<lparr>ipv4 = ''5.6.7.8'', expiry = 900, response_time = 600\<rparr>"
    "posted empty_world = []" "posted ?known = []"
    by (simp_all add: empty_world_def dict_get_def)
  show ?thesis
    using notable_iff_first_or_changed [where e = example_env and host = "''b.example''" and w = empty_world
        and config = single_config and r = 0 and path = "''response_cache.yml''"
        and response = "\<lparr>ipv4 = ''5.6.7.8'', expiry = 1300, response_time = 1000\<rparr>"
        and ?w1.0 = "snd (check_dns example_env ''b.example'' empty_world)"
        and hc = "\<lparr>name = ''B'', webhook_uri = ''https://hooks.example/b''\<rparr>"]
      notable_iff_first_or_changed [where e = example_env and host = "''b.example''" and w = ?known
        and config = single_config and r = 0 and path = "''response_cache.yml''"
        and response = "\<lparr>ipv4 = ''5.6.7.8'', expiry = 1300, response_time = 1000\<rparr>"
        and ?w1.0 = "snd (check_dns example_env ''b.example'' ?known)"
        and hc = "\<lparr>name = ''B'', webhook_uri = ''https://hooks.example/b''\<rparr>"]
      b_resolves(1,5) k g
    by simp
qed

section \<open>A notification that fails\<close>

text \<open>
  C5, as the specification states it, fails for a failure of the transport:
  \<^verbatim>\<open>requests.post\<close> raises, nothing catches the exception, and the cycle ends before the
  store is updated or saved.
\<close>

theorem delivery_failure_counterexample:
  "fst (check_dns env_post_fails ''b.example'' empty_world)
     = Inr \<lparr>ipv4 = ''5.6.7.8'', expiry = 1300, response_time = 1000\<rparr>
   \<and> post_at env_post_fails 2
        (webhook_request ''b.example''
           \<lparr>name = ''B'', webhook_uri = ''https://hooks.example/b''\<rparr>
           \<lparr>ipv4 = ''5.6.7.8'', expiry = 1300, response_time = 1000\<rparr>)
       = Inl RequestException
   \<and> fst (cycle env_post_fails (Partial 0) 0 single_config ''response_cache.yml'' empty_world)
       = Inl RequestException
   \<and> dict_get (heap (snd (cycle env_post_fails (Partial 0) 0 single_config
                             ''response_cache.yml'' empty_world)) 0) ''b.example'' = None
   \<and> files (snd (cycle env_post_fails (Partial 0) 0 single_config
                    ''response_cache.yml'' empty_world)) ''response_cache.yml'' = None"
  by (simp add: example_defs program_defs)

text \<open>
  C5, amended. For a host that resolves, whatever status the webhook answers with (2xx or
  not), the body of the loop ends normally, the entry of the host is the new response,
  and the cache file holds the store. When the transport fails, the exception of
  \<^verbatim>\<open>requests.post\<close> ends the cycle, and the store and the files are as they were.
\<close>

theorem delivery_status_ignored:
  assumes "check_dns e host w = (Inr response, w1)" and "dict_get config host = Some hc"
    and "distinct (map fst (heap w r))"
  shows "(\<forall>status. post_at e (step w1) (webhook_request host hc response) = Inr status \<longrightarrow>
            fst (for_body e r config path host w) = Inr ()
            \<and> dict_get (heap (snd (for_body e r config path host w)) r) host = Some response
            \<and> fst (load_response_cache path (snd (for_body e r config path host w)))
                = Inr (heap (snd (for_body e r config path host w)) r))
         \<and> (\<forall>err. is_notable (dict_get (heap w r) host) response
                  \<and> post_at e (step w1) (webhook_request host hc response) = Inl err \<longrightarrow>
            fst (for_body e r config path host w) = Inl err
            \<and> heap (snd (for_body e r config path host w)) = heap w
            \<and> files (snd (for_body e r config path host w)) = files w)"
proof (intro conjI allI impI)
  let ?d = "dict_setitem (heap w r) host response"
  have dd: "distinct (map fst ?d)" using assms(3) by (rule distinct_setitem)
  note fr = check_dns_frame [OF assms(1)]
  fix status
  assume p: "post_at e (step w1) (webhook_request host hc response) = Inr status"
  have "\<exists>w3. for_body e r config path host w
               = save_response_cache path ?d (w3\<lparr>heap := (heap w)(r := ?d)\<rparr>)"
    using p by (auto simp: for_body_resolved [OF assms(1,2)] Let_def)
  then obtain w3 where fb: "for_body e r config path host w
               = save_response_cache path ?d (w3\<lparr>heap := (heap w)(r := ?d)\<rparr>)" ..
  show "fst (for_body e r config path host w) = Inr ()"
    by (simp add: fb save_distinct [OF dd])
  show "dict_get (heap (snd (for_body e r config path host w)) r) host = Some response"
    by (simp add: fb save_distinct [OF dd] get_setitem)
  show "fst (load_response_cache path (snd (for_body e r config path host w)))
                = Inr (heap (snd (for_body e r config path host w)) r)"
    by (simp add: fb save_distinct [OF dd] load_dumped [OF dd])
next
  note fr = check_dns_frame [OF assms(1)]
  fix err
  assume p: "is_notable (dict_get (heap w r) host) response
                  \<and> post_at e (step w1) (webhook_request host hc response) = Inl err"
  show "fst (for_body e r config path host w) = Inl err"
    using p by (simp add: for_body_resolved [OF assms(1,2)] Let_def)
  show "heap (snd (for_body e r config path host w)) = heap w"
    using p fr by (simp add: for_body_resolved [OF assms(1,2)] Let_def)
  show "files (snd (for_body e r config path host w)) = files w"
    using p fr by (simp add: for_body_resolved [OF assms(1,2)] Let_def)
qed

theorem delivery_status_ignored_witness:
  "check_dns example_env ''b.example'' empty_world
     = (Inr \<lparr>ipv4 = ''5.6.7.8'', expiry = 1300, response_time = 1000\<rparr>,
        snd (check_dns example_env ''b.example'' empty_world))
   \<and> dict_get single_config ''b.example''
       = Some \<lparr>name = ''B'', webhook_uri = ''https://hooks.example/b''\<rparr>
   \<and> distinct (map fst (heap empty_world 0))
   \<and> post_at example_env (step (snd (check_dns example_env ''b.example'' empty_world)))
        (webhook_request ''b.example''
           \<lparr>name = ''B'', webhook_uri = ''https://hooks.example/b''\<rparr>
           \<lparr>ipv4 = ''5.6.7.8'', expiry = 1300, response_time = 1000\<rparr>) = Inr 500
   \<and> fst (for_body example_env 0 single_config ''response_cache.yml'' ''b.example''
            empty_world) = Inr ()
   \<and> dict_get (heap (snd (for_body example_env 0 single_config ''response_cache.yml''
                             ''b.example'' empty_world)) 0) ''b.example''
       = Some \<lparr>ipv4 = ''5.6.7.8'', expiry = 1300, response_time = 1000\<rparr>
   \<and> fst (load_response_cache ''response_cache.yml''
            (snd (for_body example_env 0 single_config ''response_cache.yml'' ''b.example''
                    empty_world)))
       = Inr [(''b.example'', \<lparr>ipv4 = ''5.6.7.8'', expiry = 1300, response_time = 1000\<rparr>)]
   \<and> is_notable (dict_get (heap empty_world 0) ''b.example'')
        \<lparr>ipv4 = ''5.6.7.8'', expiry = 1300, response_time = 1000\<rparr>
   \<and> post_at env_post_fails (step (snd (check_dns env_post_fails ''b.example'' empty_world)))
        (webhook_request ''b.example''
           \<lparr>name = ''B'', webhook_uri = ''https://hooks.example/b''\<rparr>
           \<lparr>ipv4 = ''5.6.7.8'', expiry = 1300, response_time = 1000\<rparr>)
       = Inl RequestException
   \<and> fst (for_body env_post_fails 0 single_config ''response_cache.yml'' ''b.example''
            empty_world) = Inl RequestException
   \<and> heap (snd (for_body env_post_fails 0 single_config ''response_cache.yml'' ''b.example''
                   empty_world)) = heap empty_world"
proof -
  have d: "distinct (map fst (heap empty_world 0))" by (simp add: empty_world_def)
  have p1: "post_at example_env (step (snd (check_dns example_env ''b.example'' empty_world)))
        (webhook_request ''b.example''
           \<lparr>name = ''B'', webhook_uri = ''https://hooks.example/b''\<rparr>
           \<lparr>ipv4 = ''5.6.7.8'', expiry = 1300, response_time = 1000\<rparr>) = Inr 500"
    by (simp add: example_defs)
  have n: "is_notable (dict_get (heap empty_world 0) ''b.example'')
        \<lparr>ipv4 = ''5.6.7.8'', expiry = 1300, response_time = 1000\<rparr>"
    by (simp add: empty_world_def dict_get_def is_notable_def)
  have p2: "post_at env_post_fails
        (step (snd (check_dns env_post_fails ''b.example'' empty_world)))
        (webhook_request ''b.example''
           \<lparr>name = ''B'', webhook_uri = ''https://hooks.example/b''\<rparr>
           \<lparr>ipv4 = ''5.6.7.8'', expiry = 1300, response_time = 1000\<rparr>)
       = Inl RequestException"
    by (simp add: example_defs)
  have h: "heap (snd (for_body example_env 0 single_config ''response_cache.yml''
                             ''b.example'' empty_world)) 0
            = [(''b.example'', \<lparr>ipv4 = ''5.6.7.8'', expiry = 1300, response_time = 1000\<rparr>)]"
    by (simp add: example_defs program_defs)
  show ?thesis
    using delivery_status_ignored [OF b_resolves(1) b_resolves(5) d, of "''response_cache.yml''"]
      delivery_status_ignored [OF b_resolves(2) b_resolves(5) d, of "''response_cache.yml''"]
      b_resolves(1,5) d p1 p2 n h
    by simp
qed

section \<open>The predicate reads the live store\<close>

lemma check_dns_no_query:
  "check_dns e h w = (res, w1) \<Longrightarrow> h \<noteq> host \<Longrightarrow>
   \<exists>ls. logged w1 = logged w @ ls \<and> (DEBUG, RetrievingARecord host) \<notin> set ls"
  by (auto simp: check_dns_def Let_def time_time_def split: sum.splits list.splits)

lemma notify_webhook_logged:
  "notify_webhook e h hc response w = (res, w1) \<Longrightarrow> logged w1 = logged w"
  by (auto simp: notify_webhook_def Let_def split: sum.splits)

lemma for_body_no_query:
  assumes "for_body e r config path h w = (res, w')" and "h \<noteq> host"
  shows "\<exists>ls. logged w' = logged w @ ls \<and> (DEBUG, RetrievingARecord host) \<notin> set ls"
proof (cases "check_dns e h w")
  case (Pair cres w1)
  from check_dns_no_query [OF Pair assms(2)] obtain ls where
    ls: "logged w1 = logged w @ ls" "(DEBUG, RetrievingARecord host) \<notin> set ls" by blast
  show ?thesis
  proof (cases cres)
    case (Inl err)
    with Pair assms(1) have "w' = w1" by (simp add: for_body_def)
    with ls show ?thesis by blast
  next
    case (Inr response)
    have "logged w' = logged w1
          \<or> logged w' = logged w1 @ [(INFO, AddressChanged h (ipv4 response)
                                     (map_option ipv4 (dict_get (heap w1 r) h)))]"
      using assms(1) Pair Inr
      by (auto simp: for_body_def Let_def
          split: sum.splits prod.splits if_splits option.splits
          dest!: notify_webhook_logged save_response_cache_frame)
    then show ?thesis
    proof
      assume "logged w' = logged w1"
      with ls show ?thesis by auto
    next
      assume "logged w' = logged w1 @ [(INFO, AddressChanged h (ipv4 response)
                                     (map_option ipv4 (dict_get (heap w1 r) h)))]"
      with ls have "logged w' = logged w @ (ls @ [(INFO, AddressChanged h (ipv4 response)
                                     (map_option ipv4 (dict_get (heap w1 r) h)))])"
        "(DEBUG, RetrievingARecord host) \<notin> set (ls @ [(INFO, AddressChanged h (ipv4 response)
                                     (map_option ipv4 (dict_get (heap w1 r) h)))])"
        by simp_all
      then show ?thesis by blast
    qed
  qed
qed

lemma call_fresh:
  "dict_get (heap w r) host = Some resp \<Longrightarrow>
   call e (Partial r) host w = (expiry resp < time_at e (step w), w\<lparr>step := step w + 1\<rparr>)"
  by (simp add: call_def is_response_stale_def time_time_def)

lemma for_stale_hosts_fresh:
  assumes late: "\<forall>n\<ge>s. time_at e n \<le> expiry resp"
  shows "dict_get (heap w r) host = Some resp \<Longrightarrow> s \<le> step w \<Longrightarrow>
         for_stale_hosts e (Partial r) r config path hosts w = (res, w') \<Longrightarrow>
         dict_get (heap w' r) host = Some resp \<and> s \<le> step w'
         \<and> (\<exists>ls. logged w' = logged w @ ls \<and> (DEBUG, RetrievingARecord host) \<notin> set ls)"
proof (induction hosts arbitrary: w)
  case Nil
  then show ?case by simp
next
  case (Cons h hosts)
  obtain stale w1 where c: "call e (Partial r) h w = (stale, w1)"
    by (cases "call e (Partial r) h w")
  from call_frame [OF c] have cf: "heap w1 = heap w" "step w \<le> step w1" "logged w1 = logged w"
    by simp_all
  have g1: "dict_get (heap w1 r) host = Some resp" using Cons.prems(1) cf by simp
  have s1: "s \<le> step w1" using Cons.prems(2) cf by simp
  have skip: "for_stale_hosts e (Partial r) r config path hosts w1 = (res, w') \<Longrightarrow> ?case"
  proof -
    assume "for_stale_hosts e (Partial r) r config path hosts w1 = (res, w')"
    from Cons.IH [OF g1 s1 this] cf show ?case by simp
  qed
  show ?case
  proof (cases stale)
    case False
    with Cons.prems(3) c show ?thesis by (intro skip) simp
  next
    case True
    have ne: "h \<noteq> host"
    proof
      assume "h = host"
      with c call_fresh [OF Cons.prems(1), of e] True
      have "expiry resp < time_at e (step w)" by simp
      with late Cons.prems(2) show False by (simp add: not_less [symmetric])
    qed
    obtain bres w2 where b: "for_body e r config path h w1 = (bres, w2)"
      by (cases "for_body e r config path h w1")
    from for_body_store [OF b] ne g1 s1
    have g2: "dict_get (heap w2 r) host = Some resp" and s2: "s \<le> step w2" by simp_all
    from for_body_no_query [OF b ne] cf obtain ls where
      ls: "logged w2 = logged w @ ls" "(DEBUG, RetrievingARecord host) \<notin> set ls" by auto
    show ?thesis
    proof (cases bres)
      case (Inl err)
      with Cons.prems(3) c True b have "w' = w2" by simp
      with g2 s2 ls show ?thesis by blast
    next
      case (Inr u)
      with Cons.prems(3) c True b
      have "for_stale_hosts e (Partial r) r config path hosts w2 = (res, w')" by simp
      from Cons.IH [OF g2 s2 this] obtain ls' where
        ih: "dict_get (heap w' r) host = Some resp" "s \<le> step w'"
          "logged w' = logged w2 @ ls'" "(DEBUG, RetrievingARecord host) \<notin> set ls'" by blast
      have "logged w' = logged w @ (ls @ ls')" using ih(3) ls(1) by simp
      moreover have "(DEBUG, RetrievingARecord host) \<notin> set (ls @ ls')" using ih(4) ls(2) by simp
      ultimately show ?thesis using ih(1,2) by blast
    qed
  qed
qed

lemma next_sleep_no_query:
  "next_sleep e r w = (res, w') \<Longrightarrow>
   \<exists>ls. logged w' = logged w @ ls \<and> (DEBUG, RetrievingARecord host) \<notin> set ls"
proof (cases "heap w r = []")
  case True
  assume "next_sleep e r w = (res, w')"
  with next_sleep_empty [OF True, of e] show ?thesis by simp
next
  case False
  assume "next_sleep e r w = (res, w')"
  with next_sleep_nonempty [OF False, of e] have
    "w' = (logging DEBUG
              (Sleeping (max 30 (Min (expiry ` snd ` set (heap w r)) - time_at e (step w))))
              (w\<lparr>step := step w + 1\<rparr>))
            \<lparr>slept := slept w @ [max 30 (Min (expiry ` snd ` set (heap w r)) - time_at e (step w))]\<rparr>"
    by simp
  then show ?thesis by simp
qed

lemma cycle_fresh:
  assumes late: "\<forall>n\<ge>s. time_at e n \<le> expiry resp"
    and g: "dict_get (heap w r) host = Some resp" and s: "s \<le> step w"
    and c: "cycle e (Partial r) r config path w = (res, w')"
  shows "dict_get (heap w' r) host = Some resp \<and> s \<le> step w'
         \<and> (\<exists>ls. logged w' = logged w @ ls \<and> (DEBUG, RetrievingARecord host) \<notin> set ls)"
proof -
  obtain fres w1 where
    f: "for_stale_hosts e (Partial r) r config path (dict_keys config) w = (fres, w1)"
    by (cases "for_stale_hosts e (Partial r) r config path (dict_keys config) w")
  from for_stale_hosts_fresh [OF late g s f] obtain ls where
    f1: "dict_get (heap w1 r) host = Some resp" "s \<le> step w1"
      "logged w1 = logged w @ ls" "(DEBUG, RetrievingARecord host) \<notin> set ls" by blast
  show ?thesis
  proof (cases fres)
    case (Inl err)
    with c f have "w' = w1" by (simp add: cycle_def)
    with f1 show ?thesis by blast
  next
    case (Inr u)
    with c f have n: "next_sleep e r w1 = (res, w')" by (simp add: cycle_def)
    from next_sleep_no_query [OF n, of host] obtain ls' where
      l2: "logged w' = logged w1 @ ls'" "(DEBUG, RetrievingARecord host) \<notin> set ls'" by blast
    have "logged w' = logged w @ (ls @ ls')" using l2(1) f1(3) by simp
    moreover have "(DEBUG, RetrievingARecord host) \<notin> set (ls @ ls')" using l2(2) f1(4) by simp
    ultimately show ?thesis using next_sleep_frame [OF n] f1(1,2) by force
  qed
qed

lemma while_true_fresh:
  assumes late: "\<forall>n\<ge>s. time_at e n \<le> expiry resp"
  shows "dict_get (heap w r) host = Some resp \<Longrightarrow> s \<le> step w \<Longrightarrow>
         while_true k e (Partial r) r config path w = (res, w') \<Longrightarrow>
         dict_get (heap w' r) host = Some resp
         \<and> (\<exists>ls. logged w' = logged w @ ls \<and> (DEBUG, RetrievingARecord host) \<notin> set ls)"
proof (induction k arbitrary: w)
  case 0
  then show ?case by simp
next
  case (Suc k)
  obtain cres w1 where c: "cycle e (Partial r) r config path w = (cres, w1)"
    by (cases "cycle e (Partial r) r config path w")
  from cycle_fresh [OF late Suc.prems(1,2) c] obtain ls where
    c1: "dict_get (heap w1 r) host = Some resp" "s \<le> step w1"
      "logged w1 = logged w @ ls" "(DEBUG, RetrievingARecord host) \<notin> set ls" by blast
  show ?case
  proof (cases cres)
    case (Inl err)
    with Suc.prems(3) c have "w' = w1" by simp
    with c1 show ?thesis by blast
  next
    case (Inr u)
    with Suc.prems(3) c have "while_true k e (Partial r) r config path w1 = (res, w')" by simp
    from Suc.IH [OF c1(1,2) this] obtain ls' where
      ih: "dict_get (heap w' r) host = Some resp" "logged w' = logged w1 @ ls'"
        "(DEBUG, RetrievingARecord host) \<notin> set ls'" by blast
    have "logged w' = logged w @ (ls @ ls')" using ih(2) c1(3) by simp
    moreover have "(DEBUG, RetrievingARecord host) \<notin> set (ls @ ls')" using ih(3) c1(4) by simp
    ultimately show ?thesis using ih(1) by blast
  qed
qed

lemma for_body_stored:
  "for_body e r config path host w = (Inr (), w1) \<Longrightarrow>
   \<exists>resp. fst (check_dns e host w) = Inr resp \<and> dict_get (heap w1 r) host = Some resp"
  by (auto simp: for_body_def Let_def get_setitem
      split: sum.splits prod.splits if_splits option.splits
      dest!: save_response_cache_frame)

lemma b_stored:
  "for_body example_env 0 single_config ''response_cache.yml'' ''b.example'' empty_world
     = (Inr (), snd (for_body example_env 0 single_config ''response_cache.yml''
                       ''b.example'' empty_world))"
  by (simp add: prod_eq_iff example_defs program_defs)

text \<open>
  C10. The predicate is built once, before the loop, from the reference to the store, and
  the loop writes through the same reference. So once the body of the loop has stored a
  host (whether or not the store knew it when the predicate was built), the predicate
  answers for that host from the stored entry: stale exactly when the expiry lies before
  the clock's reading. As long as no reading of the clock lies beyond that expiry, any
  number of further cycles leave the entry as it is and send no query for the host.
\<close>

theorem stale_check_reads_live_store:
  assumes "for_body e r config path host w = (Inr (), w1)"
  shows "\<exists>resp. fst (check_dns e host w) = Inr resp
           \<and> dict_get (heap w1 r) host = Some resp
           \<and> fst (call e (Partial r) host w1) = (expiry resp < time_at e (step w1))
           \<and> ((\<forall>n\<ge>step w1. time_at e n \<le> expiry resp) \<longrightarrow>
                (\<forall>k. dict_get (heap (snd (while_true k e (Partial r) r config path w1)) r) host
                        = Some resp
                      \<and> (\<exists>ls. logged (snd (while_true k e (Partial r) r config path w1))
                                 = logged w1 @ ls
                               \<and> (DEBUG, RetrievingARecord host) \<notin> set ls)))"
proof -
  from for_body_stored [OF assms] obtain resp where
    r: "fst (check_dns e host w) = Inr resp" "dict_get (heap w1 r) host = Some resp" by blast
  have "fst (call e (Partial r) host w1) = (expiry resp < time_at e (step w1))"
    by (simp add: call_fresh [OF r(2)])
  moreover have "(\<forall>n\<ge>step w1. time_at e n \<le> expiry resp) \<longrightarrow>
                (\<forall>k. dict_get (heap (snd (while_true k e (Partial r) r config path w1)) r) host
                        = Some resp
                      \<and> (\<exists>ls. logged (snd (while_true k e (Partial r) r config path w1))
                                 = logged w1 @ ls
                               \<and> (DEBUG, RetrievingARecord host) \<notin> set ls))"
  proof (intro impI allI)
    fix k
    assume late: "\<forall>n\<ge>step w1. time_at e n \<le> expiry resp"
    show "dict_get (heap (snd (while_true k e (Partial r) r config path w1)) r) host
                        = Some resp
                      \<and> (\<exists>ls. logged (snd (while_true k e (Partial r) r config path w1))
                                 = logged w1 @ ls
                               \<and> (DEBUG, RetrievingARecord host) \<notin> set ls)"
      using while_true_fresh [OF late r(2) order_refl, of k config path
          "fst (while_true k e (Partial r) r config path w1)"
          "snd (while_true k e (Partial r) r config path w1)"]
      by simp
  qed
  ultimately show ?thesis using r by blast
qed

theorem stale_check_reads_live_store_witness:
  "for_body example_env 0 single_config ''response_cache.yml'' ''b.example'' empty_world
     = (Inr (), snd (for_body example_env 0 single_config ''response_cache.yml''
                       ''b.example'' empty_world))
   \<and> dict_get (heap empty_world 0) ''b.example'' = None
   \<and> (\<forall>n. time_at example_env n \<le> 1300)
   \<and> \<not> fst (call example_env (Partial 0) ''b.example''
               (snd (for_body example_env 0 single_config ''response_cache.yml''
                       ''b.example'' empty_world)))
   \<and> dict_get (heap (snd (while_true 3 example_env (Partial 0) 0 single_config
                             ''response_cache.yml''
                             (snd (for_body example_env 0 single_config ''response_cache.yml''
                                     ''b.example'' empty_world)))) 0) ''b.example''
       = Some \<lparr>ipv4 = ''5.6.7.8'', expiry = 1300, response_time = 1000\<rparr>
   \<and> (\<exists>ls. logged (snd (while_true 3 example_env (Partial 0) 0 single_config
                           ''response_cache.yml''
                           (snd (for_body example_env 0 single_config ''response_cache.yml''
                                   ''b.example'' empty_world))))
              = logged (snd (for_body example_env 0 single_config ''response_cache.yml''
                               ''b.example'' empty_world)) @ ls
            \<and> (DEBUG, RetrievingARecord ''b.example'') \<notin> set ls)"
proof -
  let ?w1 = "snd (for_body example_env 0 single_config ''response_cache.yml''
                       ''b.example'' empty_world)"
  from stale_check_reads_live_store [OF b_stored] obtain resp where
    r: "fst (check_dns example_env ''b.example'' empty_world) = Inr resp"
      "fst (call example_env (Partial 0) ''b.example'' ?w1)
         = (expiry resp < time_at example_env (step ?w1))"
      "(\<forall>n\<ge>step ?w1. time_at example_env n \<le> expiry resp) \<longrightarrow>
         (\<forall>k. dict_get (heap (snd (while_true k example_env (Partial 0) 0 single_config
                                     ''response_cache.yml'' ?w1)) 0) ''b.example'' = Some resp
             \<and> (\<exists>ls. logged (snd (while_true k example_env (Partial 0) 0 single_config
                                     ''response_cache.yml'' ?w1)) = logged ?w1 @ ls
                      \<and> (DEBUG, RetrievingARecord ''b.example'') \<notin> set ls))"
    by blast
  have resp: "resp = \<lparr>ipv4 = ''5.6.7.8'', expiry = 1300, response_time = 1000\<rparr>"
  proof -
    have "fst (check_dns example_env ''b.example'' empty_world)
            = Inr \<lparr>ipv4 = ''5.6.7.8'', expiry = 1300, response_time = 1000\<rparr>"
      by (simp add: example_defs check_dns_def time_time_def logging_def Let_def)
    with r(1) show ?thesis by simp
  qed
  have t: "\<forall>n. time_at example_env n \<le> 1300" by (simp add: example_env_def)
  have g: "dict_get (heap empty_world 0) ''b.example'' = None"
    by (simp add: empty_world_def dict_get_def)
  have c: "\<not> fst (call example_env (Partial 0) ''b.example'' ?w1)"
    using r(2) resp t by (simp add: not_less)
  have late: "\<forall>n\<ge>step ?w1. time_at example_env n \<le> expiry resp"
    using resp t by simp
  from r(3) late have k: "dict_get (heap (snd (while_true 3 example_env (Partial 0) 0
         single_config ''response_cache.yml'' ?w1)) 0) ''b.example'' = Some resp
       \<and> (\<exists>ls. logged (snd (while_true 3 example_env (Partial 0) 0 single_config
                                     ''response_cache.yml'' ?w1)) = logged ?w1 @ ls
                      \<and> (DEBUG, RetrievingARecord ''b.example'') \<notin> set ls)"
    by blast
  from b_stored g t c k resp show ?thesis by blast
qed

end
